theory Spec2Isabelle
  imports Main "HOL-Library.Sublist"
begin

section \<open>The ingress operator's bootstrap: \<open>pkg/operator/operator.go\<close>\<close>

text \<open>
  The file wires collaborators of other packages together (the controller-runtime
  manager, caches and client, the manifest factory, the operator controller). None of
  them is part of the file, so every call by which \<open>New\<close>, \<open>Client\<close> or \<open>Start\<close>
  reaches one of them is recorded, with its arguments and its outcome, in a trace, and
  the outcome itself is read from an environment. An outcome may depend on everything
  that happened before the call: each environment function receives the trace so far.
\<close>

subsection \<open>Errors\<close>

text \<open>
  A Go \<open>error\<close> is its text (\<open>err.Error()\<close>, what \<open>%v\<close> prints) and, for the API
  server's status errors, the reason that \<open>errors.IsAlreadyExists\<close> inspects.
  \<open>fmt.Errorf\<close> builds a plain error, whose reason is unknown.
\<close>

datatype status_reason =
    StatusReasonUnknown
  | StatusReasonAlreadyExists
  | StatusReasonNotFound
  | StatusReasonForbidden
  | StatusReasonTimeout

datatype error = Error (reason: status_reason) (msg: string)

definition IsAlreadyExists :: "error \<Rightarrow> bool" where
  "IsAlreadyExists err = (reason err = StatusReasonAlreadyExists)"

definition Errorf :: "string \<Rightarrow> error" where
  "Errorf s = Error StatusReasonUnknown s"

datatype panic = Panic error

subsection \<open>The values passed around\<close>

type_synonym rest_config = string
type_synonym install_config = string
type_synonym dns_manager = string
type_synonym stop_chan = nat
type_synonym runtime_scheme = "string list"

record config =
  cfg_Namespace :: string

datatype rest_mapper = RESTMapper rest_config

record client_options =
  clo_Scheme :: runtime_scheme
  clo_Mapper :: rest_mapper

datatype kube_client = KubeClient rest_config client_options

record manager_options =
  mo_Namespace :: string
  mo_Scheme :: runtime_scheme

datatype manager_t = Manager rest_config manager_options

datatype factory = Factory config

record controller_config =
  cc_Client :: kube_client
  cc_Namespace :: string
  cc_ManifestFactory :: factory
  cc_DNSManager :: dns_manager

datatype controller_t = Controller manager_t controller_config

record cache_options =
  cao_Namespace :: string
  cao_Scheme :: runtime_scheme
  cao_Mapper :: rest_mapper

datatype cache_t = Cache rest_config cache_options

datatype runtime_object = Deployment | Service

datatype informer = Informer cache_t runtime_object

datatype source_t = SourceInformer informer

datatype handler_t = EnqueueRequestForObject

record cluster_ingress =
  ci_Namespace :: string
  ci_Name :: string
  ci_Spec :: string

type_synonym object_key = "string \<times> string"

definition object_key :: "cluster_ingress \<Rightarrow> object_key" where
  "object_key ci = (ci_Namespace ci, ci_Name ci)"

text \<open>The \<open>Operator\<close> struct, field by field.\<close>

record operator =
  manifestFactory :: factory
  installConfig :: install_config
  client :: kube_client
  manager :: manager_t
  caches :: "cache_t list"

subsection \<open>Calls that leave the file\<close>

datatype event =
    EvNewDiscoveryRESTMapper rest_config "error option"
  | EvClientNew rest_config client_options "error option"
  | EvManagerNew rest_config manager_options "error option"
  | EvControllerNew manager_t controller_config "error option"
  | EvCacheNew rest_config cache_options "error option"
  | EvGetInformer cache_t runtime_object "error option"
  | EvWatch controller_t source_t handler_t
  | EvDefaultClusterIngress factory "error option"
  | EvCreate kube_client cluster_ingress "error option"
  | EvUpdate kube_client cluster_ingress "error option"
  | EvDelete kube_client cluster_ingress "error option"
  | EvGoCacheStart cache_t stop_chan
  | EvWaitForCacheSync cache_t stop_chan bool
  | EvManagerStart manager_t stop_chan "error option"
  | EvInfof string

type_synonym history = "event list"

text \<open>
  The environment: what each collaborator answers. A constructor either fails or hands
  out the object built from its arguments, so its answer is an \<open>error option\<close>.
  \<open>create_fault\<close> is a failure of the remote store other than its own create-if-absent
  answer (transport, admission); \<open>fmt_v\<close> is what \<open>%v\<close> prints for an object.
\<close>

record env =
  kscheme_Scheme :: runtime_scheme
  apis_AddToScheme :: "runtime_scheme \<Rightarrow> error + runtime_scheme"
  configv1_Install :: "runtime_scheme \<Rightarrow> error + runtime_scheme"
  discovery :: "history \<Rightarrow> rest_config \<Rightarrow> error option"
  client_New :: "history \<Rightarrow> rest_config \<Rightarrow> client_options \<Rightarrow> error option"
  manager_New :: "history \<Rightarrow> rest_config \<Rightarrow> manager_options \<Rightarrow> error option"
  controller_New :: "history \<Rightarrow> manager_t \<Rightarrow> controller_config \<Rightarrow> error option"
  cache_New :: "history \<Rightarrow> rest_config \<Rightarrow> cache_options \<Rightarrow> error option"
  get_informer :: "history \<Rightarrow> cache_t \<Rightarrow> runtime_object \<Rightarrow> error option"
  default_cluster_ingress :: "history \<Rightarrow> factory \<Rightarrow> error + cluster_ingress"
  create_fault :: "history \<Rightarrow> kube_client \<Rightarrow> cluster_ingress \<Rightarrow> error option"
  wait_for_cache_sync :: "history \<Rightarrow> cache_t \<Rightarrow> stop_chan \<Rightarrow> bool"
  manager_Start :: "history \<Rightarrow> manager_t \<Rightarrow> stop_chan \<Rightarrow> error option"
  fmt_v :: "runtime_object \<Rightarrow> string"

text \<open>
  The state the file reads and writes: the package variable \<open>scheme\<close>, the remote store
  the client talks to (one object per namespace and name), and the trace of calls.
\<close>

record world =
  scheme :: runtime_scheme
  store :: "object_key \<rightharpoonup> cluster_ingress"
  trace :: history

definition log :: "event \<Rightarrow> world \<Rightarrow> world" where
  "log e w = w\<lparr>trace := trace w @ [e]\<rparr>"

definition Infof :: "string \<Rightarrow> world \<Rightarrow> world" where
  "Infof s w = log (EvInfof s) w"

definition NewDiscoveryRESTMapper ::
  "env \<Rightarrow> rest_config \<Rightarrow> world \<Rightarrow> (error + rest_mapper) \<times> world" where
  "NewDiscoveryRESTMapper env kubeConfig w =
     (let r = discovery env (trace w) kubeConfig;
          w' = log (EvNewDiscoveryRESTMapper kubeConfig r) w
      in case r of Some err \<Rightarrow> (Inl err, w') | None \<Rightarrow> (Inr (RESTMapper kubeConfig), w'))"

definition clientNew ::
  "env \<Rightarrow> rest_config \<Rightarrow> client_options \<Rightarrow> world \<Rightarrow> (error + kube_client) \<times> world" where
  "clientNew env kubeConfig opts w =
     (let r = client_New env (trace w) kubeConfig opts;
          w' = log (EvClientNew kubeConfig opts r) w
      in case r of Some err \<Rightarrow> (Inl err, w') | None \<Rightarrow> (Inr (KubeClient kubeConfig opts), w'))"

definition managerNew ::
  "env \<Rightarrow> rest_config \<Rightarrow> manager_options \<Rightarrow> world \<Rightarrow> (error + manager_t) \<times> world" where
  "managerNew env kubeConfig opts w =
     (let r = manager_New env (trace w) kubeConfig opts;
          w' = log (EvManagerNew kubeConfig opts r) w
      in case r of Some err \<Rightarrow> (Inl err, w') | None \<Rightarrow> (Inr (Manager kubeConfig opts), w'))"

definition controllerNew ::
  "env \<Rightarrow> manager_t \<Rightarrow> controller_config \<Rightarrow> world \<Rightarrow> (error + controller_t) \<times> world" where
  "controllerNew env mgr cfg w =
     (let r = controller_New env (trace w) mgr cfg;
          w' = log (EvControllerNew mgr cfg r) w
      in case r of Some err \<Rightarrow> (Inl err, w') | None \<Rightarrow> (Inr (Controller mgr cfg), w'))"

definition cacheNew ::
  "env \<Rightarrow> rest_config \<Rightarrow> cache_options \<Rightarrow> world \<Rightarrow> (error + cache_t) \<times> world" where
  "cacheNew env kubeConfig opts w =
     (let r = cache_New env (trace w) kubeConfig opts;
          w' = log (EvCacheNew kubeConfig opts r) w
      in case r of Some err \<Rightarrow> (Inl err, w') | None \<Rightarrow> (Inr (Cache kubeConfig opts), w'))"

definition GetInformer ::
  "env \<Rightarrow> cache_t \<Rightarrow> runtime_object \<Rightarrow> world \<Rightarrow> (error + informer) \<times> world" where
  "GetInformer env c obj w =
     (let r = get_informer env (trace w) c obj;
          w' = log (EvGetInformer c obj r) w
      in case r of Some err \<Rightarrow> (Inl err, w') | None \<Rightarrow> (Inr (Informer c obj), w'))"

text \<open>
  \<open>New\<close> calls \<open>operatorController.Watch\<close> as a statement and uses nothing it
  returns, so the call is recorded without an outcome.
\<close>

definition Watch :: "controller_t \<Rightarrow> source_t \<Rightarrow> handler_t \<Rightarrow> world \<Rightarrow> world" where
  "Watch ctl src h w = log (EvWatch ctl src h) w"

definition DefaultClusterIngress ::
  "env \<Rightarrow> factory \<Rightarrow> world \<Rightarrow> (error + cluster_ingress) \<times> world" where
  "DefaultClusterIngress env mf w =
     (case default_cluster_ingress env (trace w) mf of
        Inl err \<Rightarrow> (Inl err, log (EvDefaultClusterIngress mf (Some err)) w)
      | Inr ci \<Rightarrow> (Inr ci, log (EvDefaultClusterIngress mf None) w))"

text \<open>
  \<open>client.Create\<close> against the remote store: a fault of the environment comes back as
  it is; otherwise the store answers AlreadyExists for a key it holds and leaves the
  object it holds alone, and stores the object under a key it does not hold.
\<close>

definition AlreadyExistsError :: "cluster_ingress \<Rightarrow> error" where
  "AlreadyExistsError ci =
     Error StatusReasonAlreadyExists (ci_Name ci @ '' already exists'')"

definition Create ::
  "env \<Rightarrow> kube_client \<Rightarrow> cluster_ingress \<Rightarrow> world \<Rightarrow> error option \<times> world" where
  "Create env c ci w =
     (case create_fault env (trace w) c ci of
        Some err \<Rightarrow> (Some err, log (EvCreate c ci (Some err)) w)
      | None \<Rightarrow>
          (case store w (object_key ci) of
             Some held \<Rightarrow>
               (Some (AlreadyExistsError ci),
                log (EvCreate c ci (Some (AlreadyExistsError ci))) w)
           | None \<Rightarrow>
               (None,
                log (EvCreate c ci None) (w\<lparr>store := (store w)(object_key ci \<mapsto> ci)\<rparr>))))"

definition GoCacheStart :: "cache_t \<Rightarrow> stop_chan \<Rightarrow> world \<Rightarrow> world" where
  "GoCacheStart c stop w = log (EvGoCacheStart c stop) w"

definition WaitForCacheSync :: "env \<Rightarrow> cache_t \<Rightarrow> stop_chan \<Rightarrow> world \<Rightarrow> bool \<times> world" where
  "WaitForCacheSync env c stop w =
     (let ok = wait_for_cache_sync env (trace w) c stop
      in (ok, log (EvWaitForCacheSync c stop ok) w))"

definition managerStart :: "env \<Rightarrow> manager_t \<Rightarrow> stop_chan \<Rightarrow> world \<Rightarrow> error option \<times> world" where
  "managerStart env mgr stop w =
     (let r = manager_Start env (trace w) mgr stop
      in (r, log (EvManagerStart mgr stop r) w))"

subsection \<open>\<open>ensureDefaultClusterIngress\<close> and \<open>Start\<close>\<close>

definition ensureDefaultClusterIngress ::
  "env \<Rightarrow> operator \<Rightarrow> world \<Rightarrow> error option \<times> world" where
  "ensureDefaultClusterIngress env o' w =
     (case DefaultClusterIngress env (manifestFactory o') w of
        (Inl err, w1) \<Rightarrow> (Some err, w1)
      | (Inr ci, w1) \<Rightarrow>
          (case Create env (client o') ci w1 of
             (Some err, w2) \<Rightarrow>
               if \<not> IsAlreadyExists err then (Some err, w2) else (None, w2)
           | (None, w2) \<Rightarrow>
               (None,
                Infof (''created default clusteringress '' @ ci_Namespace ci @ ''/'' @ ci_Name ci)
                  w2)))"

text \<open>
  The loop over \<open>o.caches\<close>. Each round launches \<open>cache.Start(stop)\<close> in a goroutine
  (recorded at the launch; what the goroutine logs later is not) and then blocks in
  \<open>WaitForCacheSync\<close>. The result is the error of the early return, if any.
\<close>

fun start_caches :: "env \<Rightarrow> cache_t list \<Rightarrow> stop_chan \<Rightarrow> world \<Rightarrow> error option \<times> world" where
  "start_caches env [] stop w = (None, w)"
| "start_caches env (c # cs) stop w =
     (let w1 = GoCacheStart c stop w;
          w2 = Infof ''waiting for cache to sync'' w1;
          (ok, w3) = WaitForCacheSync env c stop w2
      in if \<not> ok then (Some (Errorf ''failed to sync cache''), w3)
         else start_caches env cs stop (Infof ''cache synced'' w3))"

definition Start :: "env \<Rightarrow> operator \<Rightarrow> stop_chan \<Rightarrow> world \<Rightarrow> error option \<times> world" where
  "Start env o' stop w =
     (case ensureDefaultClusterIngress env o' w of
        (Some err, w1) \<Rightarrow>
          (Some (Errorf (''failed to ensure default cluster ingress: '' @ msg err)), w1)
      | (None, w1) \<Rightarrow>
          (case start_caches env (caches o') stop w1 of
             (Some err, w2) \<Rightarrow> (Some err, w2)
           | (None, w2) \<Rightarrow> managerStart env (manager o') stop w2))"

subsection \<open>\<open>init\<close>, \<open>Client\<close> and \<open>New\<close>\<close>

text \<open>
  \<open>init\<close> points the package variable at the client-go scheme and registers the
  operator's and the config API's types in it; an error of either registration panics,
  and the process is gone.
\<close>

definition init :: "env \<Rightarrow> world \<Rightarrow> panic + world" where
  "init env w =
     (let w0 = w\<lparr>scheme := kscheme_Scheme env\<rparr>
      in case apis_AddToScheme env (scheme w0) of
           Inl err \<Rightarrow> Inl (Panic err)
         | Inr s1 \<Rightarrow>
             (case configv1_Install env s1 of
                Inl err \<Rightarrow> Inl (Panic err)
              | Inr s2 \<Rightarrow> Inr (w0\<lparr>scheme := s2\<rparr>)))"

definition Client :: "env \<Rightarrow> rest_config \<Rightarrow> world \<Rightarrow> (error + kube_client) \<times> world" where
  "Client env kubeConfig w =
     (case NewDiscoveryRESTMapper env kubeConfig w of
        (Inl err, w1) \<Rightarrow> (Inl (Errorf ''failed to get API Group-Resources''), w1)
      | (Inr mapper, w1) \<Rightarrow>
          (case clientNew env kubeConfig \<lparr>clo_Scheme = scheme w1, clo_Mapper = mapper\<rparr> w1 of
             (Inl err, w2) \<Rightarrow>
               (Inl (Errorf (''failed to create kube client: '' @ msg err)), w2)
           | (Inr kubeClient, w2) \<Rightarrow> (Inr kubeClient, w2)))"

text \<open>The loop of \<open>New\<close> over the objects to watch; the result is the early return's error.\<close>

fun watch_informers ::
  "env \<Rightarrow> cache_t \<Rightarrow> controller_t \<Rightarrow> runtime_object list \<Rightarrow> world \<Rightarrow> error option \<times> world"
  where
  "watch_informers env ingressCache operatorController [] w = (None, w)"
| "watch_informers env ingressCache operatorController (obj # objs) w =
     (case GetInformer env ingressCache obj w of
        (Inl err, w1) \<Rightarrow>
          (Some (Errorf (''failed to create informer for '' @ fmt_v env obj @ '': '' @ msg err)),
           w1)
      | (Inr informer, w1) \<Rightarrow>
          watch_informers env ingressCache operatorController objs
            (Watch operatorController (SourceInformer informer) EnqueueRequestForObject w1))"

definition New ::
  "env \<Rightarrow> config \<Rightarrow> install_config \<Rightarrow> dns_manager \<Rightarrow> rest_config \<Rightarrow> world
     \<Rightarrow> (error + operator) \<times> world" where
  "New env config installConfig' dnsManager kubeConfig w =
     (case Client env kubeConfig w of
        (Inl err, w1) \<Rightarrow> (Inl (Errorf (''could't create kube client: '' @ msg err)), w1)
      | (Inr kubeClient, w1) \<Rightarrow>
     let mf = Factory config in
     (case managerNew env kubeConfig
             \<lparr>mo_Namespace = cfg_Namespace config, mo_Scheme = scheme w1\<rparr> w1 of
        (Inl err, w2) \<Rightarrow>
          (Inl (Errorf (''failed to create operator manager: '' @ msg err)), w2)
      | (Inr operatorManager, w2) \<Rightarrow>
     (case controllerNew env operatorManager
             \<lparr>cc_Client = kubeClient, cc_Namespace = cfg_Namespace config,
              cc_ManifestFactory = mf, cc_DNSManager = dnsManager\<rparr> w2 of
        (Inl err, w3) \<Rightarrow>
          (Inl (Errorf (''failed to create operator controller: '' @ msg err)), w3)
      | (Inr operatorController, w3) \<Rightarrow>
     (case NewDiscoveryRESTMapper env kubeConfig w3 of
        (Inl err, w4) \<Rightarrow> (Inl (Errorf ''failed to get API Group-Resources''), w4)
      | (Inr mapper, w4) \<Rightarrow>
     (case cacheNew env kubeConfig
             \<lparr>cao_Namespace = ''openshift-ingress'', cao_Scheme = scheme w4,
              cao_Mapper = mapper\<rparr> w4 of
        (Inl err, w5) \<Rightarrow>
          (Inl (Errorf (''failed to create openshift-ingress cache: '' @ msg err)), w5)
      | (Inr ingressCache, w5) \<Rightarrow>
     (case watch_informers env ingressCache operatorController [Deployment, Service] w5 of
        (Some err, w6) \<Rightarrow> (Inl err, w6)
      | (None, w6) \<Rightarrow>
          (Inr \<lparr>manifestFactory = mf, installConfig = installConfig',
                client = kubeClient, manager = operatorManager,
                caches = [ingressCache]\<rparr>,
           w6)))))))"

subsection \<open>Reading a trace\<close>

text \<open>What a run added to the trace: the events after those of the starting world.\<close>

definition events_since :: "world \<Rightarrow> world \<Rightarrow> history" where
  "events_since w w' = drop (length (trace w)) (trace w')"

text \<open>The caches whose \<open>Start\<close> was launched, in the order of the launches.\<close>

fun started_caches :: "history \<Rightarrow> cache_t list" where
  "started_caches [] = []"
| "started_caches (EvGoCacheStart c s # es) = c # started_caches es"
| "started_caches (e # es) = started_caches es"

text \<open>The caches waited on, each with what \<open>WaitForCacheSync\<close> returned, in order.\<close>

fun waited_caches :: "history \<Rightarrow> (cache_t \<times> bool) list" where
  "waited_caches [] = []"
| "waited_caches (EvWaitForCacheSync c s ok # es) = (c, ok) # waited_caches es"
| "waited_caches (e # es) = waited_caches es"

fun is_manager_start :: "event \<Rightarrow> bool" where
  "is_manager_start (EvManagerStart m s r) = True"
| "is_manager_start e = False"

definition manager_started :: "history \<Rightarrow> bool" where
  "manager_started es = list_ex is_manager_start es"

text \<open>The \<open>Create\<close> calls of a trace, and whether it holds an update or a delete.\<close>

fun create_calls :: "history \<Rightarrow> (kube_client \<times> cluster_ingress) list" where
  "create_calls [] = []"
| "create_calls (EvCreate c ci r # es) = (c, ci) # create_calls es"
| "create_calls (e # es) = create_calls es"

fun is_update_or_delete :: "event \<Rightarrow> bool" where
  "is_update_or_delete (EvUpdate c ci r) = True"
| "is_update_or_delete (EvDelete c ci r) = True"
| "is_update_or_delete e = False"

text \<open>
  One round of the loop over the caches as it appears in the trace: the launch of the
  cache's \<open>Start\<close>, then the wait on the same cache, with the log lines around it.
\<close>

definition sync_round :: "stop_chan \<Rightarrow> cache_t \<Rightarrow> bool \<Rightarrow> history" where
  "sync_round stop c ok =
     [EvGoCacheStart c stop, EvInfof ''waiting for cache to sync'',
      EvWaitForCacheSync c stop ok]
     @ (if ok then [EvInfof ''cache synced''] else [])"

text \<open>The events of the ensure step, given what the factory and the store answered.\<close>

definition ensure_round ::
  "operator \<Rightarrow> (error + cluster_ingress) \<Rightarrow> error option \<Rightarrow> history" where
  "ensure_round o' made created =
     (case made of
        Inl err \<Rightarrow> [EvDefaultClusterIngress (manifestFactory o') (Some err)]
      | Inr ci \<Rightarrow>
          [EvDefaultClusterIngress (manifestFactory o') None, EvCreate (client o') ci created]
          @ (if created = None
             then [EvInfof (''created default clusteringress '' @ ci_Namespace ci @ ''/''
                            @ ci_Name ci)]
             else []))"

text \<open>The error a recorded call reported, if it reports one.\<close>

fun outcome :: "event \<Rightarrow> error option" where
  "outcome (EvNewDiscoveryRESTMapper k r) = r"
| "outcome (EvClientNew k opts r) = r"
| "outcome (EvManagerNew k opts r) = r"
| "outcome (EvControllerNew m cfg r) = r"
| "outcome (EvCacheNew k opts r) = r"
| "outcome (EvGetInformer c obj r) = r"
| "outcome (EvDefaultClusterIngress mf r) = r"
| "outcome (EvCreate c ci r) = r"
| "outcome (EvUpdate c ci r) = r"
| "outcome (EvDelete c ci r) = r"
| "outcome (EvManagerStart m s r) = r"
| "outcome e = None"

definition failed :: "event \<Rightarrow> bool" where
  "failed e = (outcome e \<noteq> None)"

fun is_discovery :: "event \<Rightarrow> bool" where
  "is_discovery (EvNewDiscoveryRESTMapper k r) = True"
| "is_discovery e = False"

text \<open>The informers asked of a cache and the watches handed to a controller, in order.\<close>

fun informers_requested :: "history \<Rightarrow> (cache_t \<times> runtime_object) list" where
  "informers_requested [] = []"
| "informers_requested (EvGetInformer c obj r # es) = (c, obj) # informers_requested es"
| "informers_requested (e # es) = informers_requested es"

fun watched :: "history \<Rightarrow> (controller_t \<times> source_t \<times> handler_t) list" where
  "watched [] = []"
| "watched (EvWatch ctl src h # es) = (ctl, src, h) # watched es"
| "watched (e # es) = watched es"

subsection \<open>The specification's wording, for comparison\<close>

text \<open>
  The phase ordering as the specification words it: every cache is started before the
  first wait, so that no launch of a cache's \<open>Start\<close> follows a \<open>WaitForCacheSync\<close>.
\<close>

fun starts_precede_waits :: "history \<Rightarrow> bool" where
  "starts_precede_waits [] = True"
| "starts_precede_waits (EvWaitForCacheSync c s ok # es) = (started_caches es = [])"
| "starts_precede_waits (e # es) = starts_precede_waits es"

text \<open>A message contains a text when the text is a contiguous part of it.\<close>

definition contains_text :: "string \<Rightarrow> string \<Rightarrow> bool" where
  "contains_text message text = sublist text message"

subsection \<open>Scenarios\<close>

text \<open>
  Concrete collaborators for the scenarios of the specification: an environment in
  which every call succeeds, and variations of it with one fault each.
\<close>

definition example_scheme :: runtime_scheme where
  "example_scheme =
     [''core/v1'', ''apps/v1'', ''ingress.openshift.io/v1alpha1'', ''config.openshift.io/v1'']"

definition default_ingress :: cluster_ingress where
  "default_ingress =
     \<lparr>ci_Namespace = ''openshift-ingress-operator'', ci_Name = ''default'',
      ci_Spec = ''replicas: 1''\<rparr>"

definition quiet_env :: env where
  "quiet_env =
     \<lparr>kscheme_Scheme = [''core/v1'', ''apps/v1''],
      apis_AddToScheme = (\<lambda>s. Inr (s @ [''ingress.openshift.io/v1alpha1''])),
      configv1_Install = (\<lambda>s. Inr (s @ [''config.openshift.io/v1''])),
      discovery = (\<lambda>h k. None),
      client_New = (\<lambda>h k opts. None),
      manager_New = (\<lambda>h k opts. None),
      controller_New = (\<lambda>h m cfg. None),
      cache_New = (\<lambda>h k opts. None),
      get_informer = (\<lambda>h c obj. None),
      default_cluster_ingress = (\<lambda>h mf. Inr default_ingress),
      create_fault = (\<lambda>h c ci. None),
      wait_for_cache_sync = (\<lambda>h c s. True),
      manager_Start = (\<lambda>h m s. None),
      fmt_v = (\<lambda>obj. case obj of Deployment \<Rightarrow> ''&Deployment{}'' | Service \<Rightarrow> ''&Service{}'')\<rparr>"

definition fresh_world :: world where
  "fresh_world = \<lparr>scheme = example_scheme, store = Map.empty, trace = []\<rparr>"

definition example_config :: config where
  "example_config = \<lparr>cfg_Namespace = ''openshift-ingress-operator''\<rparr>"

definition cache_in :: "string \<Rightarrow> cache_t" where
  "cache_in ns =
     Cache ''kubeconfig''
       \<lparr>cao_Namespace = ns, cao_Scheme = example_scheme, cao_Mapper = RESTMapper ''kubeconfig''\<rparr>"

definition example_client :: kube_client where
  "example_client =
     KubeClient ''kubeconfig''
       \<lparr>clo_Scheme = example_scheme, clo_Mapper = RESTMapper ''kubeconfig''\<rparr>"

definition example_manager :: manager_t where
  "example_manager =
     Manager ''kubeconfig''
       \<lparr>mo_Namespace = ''openshift-ingress-operator'', mo_Scheme = example_scheme\<rparr>"

definition operator_with :: "cache_t list \<Rightarrow> operator" where
  "operator_with cs =
     \<lparr>manifestFactory = Factory example_config, installConfig = ''install-config'',
      client = example_client, manager = example_manager, caches = cs\<rparr>"

text \<open>Three caches of which the second never reports sync.\<close>

definition three_caches :: "cache_t list" where
  "three_caches = [cache_in ''ns-a'', cache_in ''ns-b'', cache_in ''ns-c'']"

definition second_stalls_env :: env where
  "second_stalls_env =
     quiet_env\<lparr>wait_for_cache_sync := (\<lambda>h c s. c \<noteq> cache_in ''ns-b'')\<rparr>"

text \<open>A manifest factory that cannot build the default object; a store that is down.\<close>

definition no_manifest_env :: env where
  "no_manifest_env =
     quiet_env\<lparr>default_cluster_ingress := (\<lambda>h mf. Inl (Errorf ''asset not found''))\<rparr>"

definition store_down_env :: env where
  "store_down_env =
     quiet_env\<lparr>create_fault :=
       (\<lambda>h c ci. Some (Error StatusReasonTimeout ''connection refused''))\<rparr>"

text \<open>Discovery down; a dispatch loop that ends with an error.\<close>

definition no_discovery_env :: env where
  "no_discovery_env =
     quiet_env\<lparr>discovery := (\<lambda>h k. Some (Errorf ''connection refused''))\<rparr>"

definition dispatch_fails_env :: env where
  "dispatch_fails_env =
     quiet_env\<lparr>manager_Start := (\<lambda>h m s. Some (Errorf ''leader election lost''))\<rparr>"

section \<open>Properties\<close>

subsection \<open>Reading traces piece by piece\<close>

lemma events_since_append: "trace w' = trace w @ evs \<Longrightarrow> events_since w w' = evs"
  by (simp add: events_since_def)

lemma started_caches_append:
  "started_caches (xs @ ys) = started_caches xs @ started_caches ys"
  by (induction xs rule: started_caches.induct) simp_all

lemma waited_caches_append:
  "waited_caches (xs @ ys) = waited_caches xs @ waited_caches ys"
  by (induction xs rule: waited_caches.induct) simp_all

lemma create_calls_append:
  "create_calls (xs @ ys) = create_calls xs @ create_calls ys"
  by (induction xs rule: create_calls.induct) simp_all

lemma manager_started_append:
  "manager_started (xs @ ys) = (manager_started xs \<or> manager_started ys)"
  by (simp add: manager_started_def)

lemma sync_round_reads:
  "started_caches (sync_round stop c ok) = [c]"
  "waited_caches (sync_round stop c ok) = [(c, ok)]"
  "create_calls (sync_round stop c ok) = []"
  "\<not> manager_started (sync_round stop c ok)"
  "\<not> list_ex is_update_or_delete (sync_round stop c ok)"
  by (simp_all add: sync_round_def manager_started_def)

lemma sync_rounds_reads:
  "started_caches (concat (map (\<lambda>c. sync_round stop c True) cs)) = cs"
  "waited_caches (concat (map (\<lambda>c. sync_round stop c True) cs)) = map (\<lambda>c. (c, True)) cs"
  "create_calls (concat (map (\<lambda>c. sync_round stop c True) cs)) = []"
  "\<not> manager_started (concat (map (\<lambda>c. sync_round stop c True) cs))"
  "\<not> list_ex is_update_or_delete (concat (map (\<lambda>c. sync_round stop c True) cs))"
  by (induction cs)
     (simp_all add: started_caches_append waited_caches_append create_calls_append
        manager_started_append sync_round_reads, simp_all add: manager_started_def)

lemma ensure_round_reads:
  "started_caches (ensure_round o' made created) = []"
  "waited_caches (ensure_round o' made created) = []"
  "\<not> manager_started (ensure_round o' made created)"
  "\<not> list_ex is_update_or_delete (ensure_round o' made created)"
  "create_calls (ensure_round o' made created) =
     (case made of Inl err \<Rightarrow> [] | Inr ci \<Rightarrow> [(client o', ci)])"
  by (simp_all add: ensure_round_def manager_started_def split: sum.splits)

subsection \<open>The loop over the caches\<close>

text \<open>
  Symbolic execution of the loop: the rounds of the caches that synced, in the order of
  the list, and then either nothing more or the round of the first cache that did not.
\<close>

lemma start_caches_events:
  "start_caches env cs stop w = (r, w') \<Longrightarrow>
     scheme w' = scheme w \<and> store w' = store w \<and>
     (case r of
        None \<Rightarrow> trace w' = trace w @ concat (map (\<lambda>c. sync_round stop c True) cs)
      | Some err \<Rightarrow> err = Errorf ''failed to sync cache'' \<and>
          (\<exists>i < length cs. trace w' =
             trace w @ concat (map (\<lambda>c. sync_round stop c True) (take i cs))
               @ sync_round stop (cs ! i) False))"
proof (induction cs arbitrary: w)
  case Nil
  then show ?case by auto
next
  case (Cons c cs)
  let ?waited = "WaitForCacheSync env c stop
                   (Infof ''waiting for cache to sync'' (GoCacheStart c stop w))"
  let ?w3 = "snd ?waited"
  let ?ok = "fst ?waited"
  have t3: "trace ?w3 = trace w @ [EvGoCacheStart c stop,
              EvInfof ''waiting for cache to sync'', EvWaitForCacheSync c stop ?ok]"
    and s3: "scheme ?w3 = scheme w" "store ?w3 = store w"
    by (simp_all add: WaitForCacheSync_def Infof_def GoCacheStart_def log_def Let_def)
  show ?case
  proof (cases ?ok)
    case False
    with Cons.prems have "r = Some (Errorf ''failed to sync cache'')" "w' = ?w3"
      by (auto simp: Let_def split: prod.splits)
    with t3 s3 False show ?thesis
      by (auto simp: sync_round_def intro!: exI[of _ 0])
  next
    case True
    with Cons.prems have rec: "start_caches env cs stop (Infof ''cache synced'' ?w3) = (r, w')"
      by (auto simp: Let_def split: prod.splits)
    have t4: "trace (Infof ''cache synced'' ?w3) = trace w @ sync_round stop c True"
      and s4: "scheme (Infof ''cache synced'' ?w3) = scheme w"
        "store (Infof ''cache synced'' ?w3) = store w"
      using t3 s3 True by (simp_all add: Infof_def log_def sync_round_def)
    from Cons.IH[OF rec] t4 s4 show ?thesis
      apply (cases r)
       apply simp
      apply clarsimp
      subgoal for i
        by (rule exI[of _ "Suc i"]) simp
      done
  qed
qed

subsection \<open>The ensure step\<close>

lemma Create_events:
  assumes "Create env c ci w = (r, w')"
  shows "scheme w' = scheme w \<and> trace w' = trace w @ [EvCreate c ci r] \<and>
     (case create_fault env (trace w) c ci of
        Some err \<Rightarrow> r = Some err \<and> store w' = store w
      | None \<Rightarrow>
          (case store w (object_key ci) of
             Some held \<Rightarrow> r = Some (AlreadyExistsError ci) \<and> store w' = store w
           | None \<Rightarrow> r = None \<and> store w' = (store w)(object_key ci \<mapsto> ci)))"
proof (cases "create_fault env (trace w) c ci")
  case (Some err)
  have "Create env c ci w = (Some err, log (EvCreate c ci (Some err)) w)"
    by (simp add: Create_def Some)
  with assms have "r = Some err" "w' = log (EvCreate c ci (Some err)) w" by auto
  then show ?thesis by (simp add: Some log_def)
next
  case None
  show ?thesis
  proof (cases "store w (object_key ci)")
    case (Some held)
    have "Create env c ci w = (Some (AlreadyExistsError ci),
                log (EvCreate c ci (Some (AlreadyExistsError ci))) w)"
      by (simp add: Create_def None Some)
    with assms have "r = Some (AlreadyExistsError ci)"
      "w' = log (EvCreate c ci (Some (AlreadyExistsError ci))) w" by auto
    then show ?thesis by (simp add: None Some log_def)
  next
    case absent: None
    have "Create env c ci w = (None,
                log (EvCreate c ci None) (w\<lparr>store := (store w)(object_key ci \<mapsto> ci)\<rparr>))"
      by (simp add: Create_def None absent)
    with assms have "r = None"
      "w' = log (EvCreate c ci None) (w\<lparr>store := (store w)(object_key ci \<mapsto> ci)\<rparr>)"
      by auto
    then show ?thesis by (simp add: None absent log_def)
  qed
qed

lemma ensure_events:
  assumes "ensureDefaultClusterIngress env o' w = (r, w')"
  shows "scheme w' = scheme w \<and>
     (\<exists>created. trace w' = trace w @
          ensure_round o' (default_cluster_ingress env (trace w) (manifestFactory o')) created \<and>
        (case default_cluster_ingress env (trace w) (manifestFactory o') of
           Inl err \<Rightarrow> r = Some err \<and> store w' = store w
         | Inr ci \<Rightarrow>
             r = (case created of None \<Rightarrow> None
                  | Some err \<Rightarrow> if IsAlreadyExists err then None else Some err) \<and>
             (case create_fault env
                     (trace w @ [EvDefaultClusterIngress (manifestFactory o') None])
                     (client o') ci of
                Some err \<Rightarrow> created = Some err \<and> store w' = store w
              | None \<Rightarrow>
                  (case store w (object_key ci) of
                     Some held \<Rightarrow>
                       created = Some (AlreadyExistsError ci) \<and> store w' = store w
                   | None \<Rightarrow>
                       created = None \<and> store w' = (store w)(object_key ci \<mapsto> ci)))))"
proof (cases "default_cluster_ingress env (trace w) (manifestFactory o')")
  case (Inl err)
  with assms show ?thesis
    by (auto simp: ensureDefaultClusterIngress_def DefaultClusterIngress_def log_def
        ensure_round_def)
next
  case (Inr ci)
  let ?w1 = "log (EvDefaultClusterIngress (manifestFactory o') None) w"
  obtain rc w2 where c: "Create env (client o') ci ?w1 = (rc, w2)"
    by (cases "Create env (client o') ci ?w1")
  note ce = Create_events[OF c]
  from assms Inr c have rw:
    "r = (case rc of None \<Rightarrow> None
          | Some err \<Rightarrow> if IsAlreadyExists err then None else Some err)"
    "w' = (if rc = None
           then Infof (''created default clusteringress '' @ ci_Namespace ci @ ''/''
                       @ ci_Name ci) w2
           else w2)"
    by (auto simp: ensureDefaultClusterIngress_def DefaultClusterIngress_def
        split: option.splits if_splits)
  have w1: "trace ?w1 = trace w @ [EvDefaultClusterIngress (manifestFactory o') None]"
    "store ?w1 = store w" "scheme ?w1 = scheme w"
    by (simp_all add: log_def)
  show ?thesis
  proof (cases rc)
    case None
    with Inr ce rw w1 show ?thesis
      by (intro conjI exI[of _ rc])
         (auto simp: ensure_round_def log_def Infof_def split: option.splits)
  next
    case (Some e)
    with Inr ce rw w1 show ?thesis
      by (intro conjI exI[of _ rc])
         (auto simp: ensure_round_def log_def Infof_def split: option.splits)
  qed
qed

subsection \<open>The three ways \<open>Start\<close> ends\<close>

lemma Start_cases [consumes 1, case_names ensure_failed sync_failed dispatched]:
  assumes "Start env o' stop w = (r, w')"
  obtains
    (ensure_failed) created err where
      "ensureDefaultClusterIngress env o' w = (Some err, w')"
      "r = Some (Errorf (''failed to ensure default cluster ingress: '' @ msg err))"
      "events_since w w' =
         ensure_round o' (default_cluster_ingress env (trace w) (manifestFactory o')) created"
  | (sync_failed) created w1 i where
      "ensureDefaultClusterIngress env o' w = (None, w1)"
      "r = Some (Errorf ''failed to sync cache'')"
      "i < length (caches o')"
      "events_since w w' =
         ensure_round o' (default_cluster_ingress env (trace w) (manifestFactory o')) created
         @ concat (map (\<lambda>c. sync_round stop c True) (take i (caches o')))
         @ sync_round stop (caches o' ! i) False"
      "store w' = store w1" "scheme w' = scheme w"
  | (dispatched) created w1 where
      "ensureDefaultClusterIngress env o' w = (None, w1)"
      "events_since w w' =
         ensure_round o' (default_cluster_ingress env (trace w) (manifestFactory o')) created
         @ concat (map (\<lambda>c. sync_round stop c True) (caches o'))
         @ [EvManagerStart (manager o') stop r]"
      "store w' = store w1" "scheme w' = scheme w"
proof -
  obtain re w1 where e: "ensureDefaultClusterIngress env o' w = (re, w1)"
    by (cases "ensureDefaultClusterIngress env o' w")
  from ensure_events[OF e] obtain created where
    t1: "trace w1 = trace w @
          ensure_round o' (default_cluster_ingress env (trace w) (manifestFactory o')) created"
    and s1: "scheme w1 = scheme w"
    by blast
  show thesis
  proof (cases re)
    case (Some err)
    with assms e have
      "r = Some (Errorf (''failed to ensure default cluster ingress: '' @ msg err))"
      "w' = w1" by (auto simp: Start_def)
    with Some e t1 show thesis
      by (intro ensure_failed[of err created]) (simp_all add: events_since_def)
  next
    case None
    obtain rc w2 where c: "start_caches env (caches o') stop w1 = (rc, w2)"
      by (cases "start_caches env (caches o') stop w1")
    note ce = start_caches_events[OF c]
    show thesis
    proof (cases rc)
      case (Some e')
      with assms e None c have rw: "r = Some e'" "w' = w2" by (auto simp: Start_def)
      from ce Some obtain i where i: "i < length (caches o')"
        "trace w2 = trace w1 @ concat (map (\<lambda>c. sync_round stop c True) (take i (caches o')))
               @ sync_round stop (caches o' ! i) False"
        and e': "e' = Errorf ''failed to sync cache''"
        by auto
      from i t1 rw have "events_since w w' =
           ensure_round o' (default_cluster_ingress env (trace w) (manifestFactory o')) created
           @ concat (map (\<lambda>c. sync_round stop c True) (take i (caches o')))
           @ sync_round stop (caches o' ! i) False"
        by (simp add: events_since_def)
      with i(1) rw e' e None ce s1 show thesis
        by (intro sync_failed[of w1 i created]) simp_all
    next
      case nosync: None
      with assms e None c have m: "managerStart env (manager o') stop w2 = (r, w')"
        by (auto simp: Start_def)
      then have "trace w' = trace w2 @ [EvManagerStart (manager o') stop r]"
        "store w' = store w2" "scheme w' = scheme w2"
        by (auto simp: managerStart_def log_def Let_def)
      with ce nosync t1 have "events_since w w' =
           ensure_round o' (default_cluster_ingress env (trace w) (manifestFactory o')) created
           @ concat (map (\<lambda>c. sync_round stop c True) (caches o'))
           @ [EvManagerStart (manager o') stop r]" "store w' = store w1" "scheme w' = scheme w1"
        by (simp_all add: events_since_def)
      with e None s1 show thesis
        by (intro dispatched[of w1 created]) simp_all
    qed
  qed
qed

subsection \<open>The scenarios, run\<close>

lemmas run_defs = Start_def ensureDefaultClusterIngress_def DefaultClusterIngress_def
  Create_def GoCacheStart_def WaitForCacheSync_def managerStart_def Infof_def log_def Let_def
  events_since_def object_key_def IsAlreadyExists_def AlreadyExistsError_def

lemmas scenario_defs = quiet_env_def second_stalls_env_def no_manifest_env_def
  store_down_env_def dispatch_fails_env_def no_discovery_env_def fresh_world_def
  operator_with_def three_caches_def cache_in_def default_ingress_def example_client_def
  example_manager_def example_config_def example_scheme_def

lemma stalled_run:
  "events_since fresh_world
     (snd (Start second_stalls_env (operator_with three_caches) 0 fresh_world))
   = ensure_round (operator_with three_caches) (Inr default_ingress) None
     @ sync_round 0 (cache_in ''ns-a'') True @ sync_round 0 (cache_in ''ns-b'') False"
  "fst (Start second_stalls_env (operator_with three_caches) 0 fresh_world)
   = Some (Errorf ''failed to sync cache'')"
  by (simp_all add: run_defs scenario_defs ensure_round_def sync_round_def)

lemma quiet_run:
  "events_since fresh_world
     (snd (Start quiet_env (operator_with three_caches) 0 fresh_world))
   = ensure_round (operator_with three_caches) (Inr default_ingress) None
     @ sync_round 0 (cache_in ''ns-a'') True @ sync_round 0 (cache_in ''ns-b'') True
     @ sync_round 0 (cache_in ''ns-c'') True @ [EvManagerStart example_manager 0 None]"
  "fst (Start quiet_env (operator_with three_caches) 0 fresh_world) = None"
  by (simp_all add: run_defs scenario_defs ensure_round_def sync_round_def)

subsection \<open>The sync barrier\<close>

text \<open>
  C1. The dispatch loop is entered only behind the barrier. If any wait on a cache
  returned false during \<open>Start\<close>, then \<open>Start\<close> returns the error "failed to sync cache"
  and \<open>manager.Start\<close> was not called, whatever the other caches answer. And if
  \<open>manager.Start\<close> was called, every cache of the list was waited on, in the order of
  the list, and each wait returned true.
\<close>

theorem sync_barrier:
  assumes "Start env o' stop w = (r, w')"
  shows "((\<exists>c. (c, False) \<in> set (waited_caches (events_since w w'))) \<longrightarrow>
            r = Some (Errorf ''failed to sync cache'') \<and>
            \<not> manager_started (events_since w w'))
       \<and> (manager_started (events_since w w') \<longrightarrow>
            waited_caches (events_since w w') = map (\<lambda>c. (c, True)) (caches o'))"
  using assms
proof (cases rule: Start_cases)
  case ensure_failed
  then show ?thesis by (simp add: ensure_round_reads)
next
  case sync_failed
  then show ?thesis
    by (simp add: waited_caches_append manager_started_append ensure_round_reads
        sync_rounds_reads sync_round_reads)
next
  case dispatched
  then show ?thesis
    by (auto simp add: waited_caches_append manager_started_append ensure_round_reads
        sync_rounds_reads sync_round_reads)
qed

text \<open>
  The scenario of the specification, three caches of which the second does not sync,
  and the run in which all three do.
\<close>

theorem sync_barrier_witness:
  "(cache_in ''ns-b'', False) \<in> set (waited_caches (events_since fresh_world
       (snd (Start second_stalls_env (operator_with three_caches) 0 fresh_world))))
   \<and> fst (Start second_stalls_env (operator_with three_caches) 0 fresh_world)
       = Some (Errorf ''failed to sync cache'')
   \<and> \<not> manager_started (events_since fresh_world
       (snd (Start second_stalls_env (operator_with three_caches) 0 fresh_world)))
   \<and> manager_started (events_since fresh_world
       (snd (Start quiet_env (operator_with three_caches) 0 fresh_world)))
   \<and> waited_caches (events_since fresh_world
       (snd (Start quiet_env (operator_with three_caches) 0 fresh_world)))
       = map (\<lambda>c. (c, True)) three_caches"
proof -
  have stalled: "(cache_in ''ns-b'', False) \<in> set (waited_caches (events_since fresh_world
       (snd (Start second_stalls_env (operator_with three_caches) 0 fresh_world))))"
    by (simp add: stalled_run waited_caches_append ensure_round_reads sync_round_reads)
  have quiet: "manager_started (events_since fresh_world
       (snd (Start quiet_env (operator_with three_caches) 0 fresh_world)))"
    by (simp add: quiet_run manager_started_append manager_started_def)
  have caches: "caches (operator_with three_caches) = three_caches"
    by (simp add: operator_with_def)
  from sync_barrier[OF surjective_pairing
        [of "Start second_stalls_env (operator_with three_caches) 0 fresh_world"]] stalled
    sync_barrier[OF surjective_pairing
        [of "Start quiet_env (operator_with three_caches) 0 fresh_world"]] quiet caches
  show ?thesis by auto
qed

end
